theory Spec2Isabelle
  imports Complex_Main "HOL-Library.Multiset" "HOL-Library.Sublist"
begin

section \<open>Values, exceptions and the HTTP collaborator\<close>

text \<open>
  The service in \<^verbatim>\<open>app/Services/GitHubService.py\<close> works on decoded JSON. A JSON object is
  kept as the list of its items; a key listed twice stands for its first binding. A
  number without fraction or exponent decodes to an integer, any other number to a float:
  a finite float is given by its value, and the decoder also produces the three floats
  that are not finite.
\<close>

datatype pyfloat = Finite rat | PosInf | NegInf | NaN

datatype json =
    JNull
  | JBool bool
  | JInt int
  | JFloat pyfloat
  | JStr string
  | JList "json list"
  | JObj "(string \<times> json) list"

text \<open>
  Every exception of the source is a value. \<open>HTTPException\<close> is the one the service raises
  itself (status code and detail); the others are raised by the interpreter or by the
  HTTP library.
\<close>

datatype exn =
    HTTPException int string
  | TypeError
  | KeyError string
  | AttributeError
  | JSONDecodeError
  | RequestError string
  | OverflowError
  | ValidationError

text \<open>
  A response of the HTTP library: \<open>status_code\<close>, \<open>body_text\<close> (the body, which the source
  reads as \<^verbatim>\<open>response.text\<close>) and the outcome of \<^verbatim>\<open>response.json()\<close>, which is \<open>None\<close>
  when the body does not decode.
\<close>

record response =
  status_code :: int
  body_text :: string
  json_body :: "json option"

text \<open>The numbers the interpreter adds up: integers of any size and floats.\<close>

datatype pynum = PInt int | PFloat pyfloat

text \<open>
  The surroundings of a call: \<open>http_get\<close> is what \<^verbatim>\<open>client.get(url, headers=HEADERS)\<close>
  answers for a URL (an exception or a response; the headers are constant), \<open>py_str\<close> is
  the interpreter's rendering of a value that is not a string inside an f-string, and
  \<open>float_add\<close> is the interpreter's \<^verbatim>\<open>a + b\<close> when one of the two numbers is a float: the
  rounded float, or the exception for an integer too large to convert. All three are
  parameters of the model: every theorem holds for all of them.
\<close>

record env =
  http_get :: "string \<Rightarrow> exn + response"
  py_str :: "json \<Rightarrow> string"
  float_add :: "pynum \<Rightarrow> pynum \<Rightarrow> exn + pyfloat"

definition response_json :: "response \<Rightarrow> exn + json" where
  "response_json r = (case json_body r of None \<Rightarrow> Inl JSONDecodeError | Some v \<Rightarrow> Inr v)"

section \<open>The interpreter's operations on decoded JSON\<close>

definition dict_keys :: "(string \<times> json) list \<Rightarrow> string list" where
  "dict_keys kvs = remdups (map fst kvs)"

text \<open>\<^verbatim>\<open>f"{v}"\<close>: a string is inserted as it is.\<close>

definition fstr :: "env \<Rightarrow> json \<Rightarrow> string" where
  "fstr e v = (case v of JStr s \<Rightarrow> s | _ \<Rightarrow> py_str e v)"

text \<open>\<^verbatim>\<open>if v:\<close>\<close>

fun truthy :: "json \<Rightarrow> bool" where
  "truthy JNull = False"
| "truthy (JBool b) = b"
| "truthy (JInt n) = (n \<noteq> 0)"
| "truthy (JFloat f) = (f \<noteq> Finite 0)"
| "truthy (JStr s) = (s \<noteq> [])"
| "truthy (JList xs) = (xs \<noteq> [])"
| "truthy (JObj kvs) = (kvs \<noteq> [])"

text \<open>\<^verbatim>\<open>len(v)\<close>\<close>

fun py_len :: "json \<Rightarrow> exn + int" where
  "py_len (JList xs) = Inr (int (length xs))"
| "py_len (JObj kvs) = Inr (int (length (dict_keys kvs)))"
| "py_len (JStr s) = Inr (int (length s))"
| "py_len _ = Inl TypeError"

text \<open>\<^verbatim>\<open>for x in v\<close>: a list gives its elements, a dict its keys, a string its characters.\<close>

fun py_iter :: "json \<Rightarrow> exn + json list" where
  "py_iter (JList xs) = Inr xs"
| "py_iter (JObj kvs) = Inr (map JStr (dict_keys kvs))"
| "py_iter (JStr s) = Inr (map (\<lambda>c. JStr [c]) s)"
| "py_iter _ = Inl TypeError"

text \<open>\<^verbatim>\<open>v[k]\<close> with a string key \<open>k\<close>\<close>

fun py_getitem :: "json \<Rightarrow> string \<Rightarrow> exn + json" where
  "py_getitem (JObj kvs) k = (case map_of kvs k of None \<Rightarrow> Inl (KeyError k) | Some v \<Rightarrow> Inr v)"
| "py_getitem _ k = Inl TypeError"

text \<open>\<^verbatim>\<open>v.get(k, d)\<close>: only a dict has the method.\<close>

fun py_get :: "json \<Rightarrow> string \<Rightarrow> json \<Rightarrow> exn + json" where
  "py_get (JObj kvs) k d = (case map_of kvs k of None \<Rightarrow> Inr d | Some v \<Rightarrow> Inr v)"
| "py_get _ k d = Inl AttributeError"

text \<open>\<^verbatim>\<open>k in v\<close> with a string \<open>k\<close>: key of a dict, element of a list, substring of a string.\<close>

fun py_in :: "string \<Rightarrow> json \<Rightarrow> exn + bool" where
  "py_in k (JObj kvs) = Inr (k \<in> set (map fst kvs))"
| "py_in k (JList xs) = Inr (JStr k \<in> set xs)"
| "py_in k (JStr s) = Inr (sublist k s)"
| "py_in k _ = Inl TypeError"

text \<open>
  \<^verbatim>\<open>a + b\<close> on numbers: two integers are added exactly; adding the integer 0 to a float
  gives the float back; every other sum with a float is the interpreter's.
\<close>

fun py_add :: "env \<Rightarrow> pynum \<Rightarrow> pynum \<Rightarrow> exn + pynum" where
  "py_add e (PInt m) (PInt n) = Inr (PInt (m + n))"
| "py_add e (PFloat f) (PInt n) =
     (if n = 0 then Inr (PFloat f)
      else (case float_add e (PFloat f) (PInt n) of Inl x \<Rightarrow> Inl x | Inr g \<Rightarrow> Inr (PFloat g)))"
| "py_add e (PInt m) (PFloat f) =
     (if m = 0 then Inr (PFloat f)
      else (case float_add e (PInt m) (PFloat f) of Inl x \<Rightarrow> Inl x | Inr g \<Rightarrow> Inr (PFloat g)))"
| "py_add e (PFloat f) (PFloat g) =
     (case float_add e (PFloat f) (PFloat g) of Inl x \<Rightarrow> Inl x | Inr h \<Rightarrow> Inr (PFloat h))"

text \<open>\<^verbatim>\<open>n += v\<close> for a number \<open>n\<close> and a decoded value: a boolean counts as 0 or 1.\<close>

fun py_iadd :: "env \<Rightarrow> pynum \<Rightarrow> json \<Rightarrow> exn + pynum" where
  "py_iadd e n (JInt m) = py_add e n (PInt m)"
| "py_iadd e n (JBool b) = py_add e n (PInt (if b then 1 else 0))"
| "py_iadd e n (JFloat f) = py_add e n (PFloat f)"
| "py_iadd e n _ = Inl TypeError"

section \<open>Remote data client\<close>

definition GITHUB_API :: string where
  "GITHUB_API = ''https://api.github.com''"

text \<open>
  \<^verbatim>\<open>fetch_json\<close> opens a client of its own, \<^verbatim>\<open>fetch_json_with_client\<close> uses the one it is
  given; both send the same request and treat the response alike.
\<close>

definition fetch_json_with_client :: "env \<Rightarrow> string \<Rightarrow> exn + json" where
  "fetch_json_with_client e url =
     (case http_get e url of
        Inl x \<Rightarrow> Inl x
      | Inr r \<Rightarrow>
          if status_code r \<noteq> 200
          then Inl (HTTPException (status_code r) (''GitHub API error: '' @ body_text r))
          else response_json r)"

definition fetch_json :: "env \<Rightarrow> string \<Rightarrow> exn + json" where
  "fetch_json e url =
     (case http_get e url of
        Inl x \<Rightarrow> Inl x
      | Inr r \<Rightarrow>
          if status_code r \<noteq> 200
          then Inl (HTTPException (status_code r) (''GitHub API error: '' @ body_text r))
          else response_json r)"

definition org_repos_url :: "string \<Rightarrow> string" where
  "org_repos_url org = GITHUB_API @ ''/orgs/'' @ org @ ''/repos?per_page=100''"

definition get_org_repos :: "env \<Rightarrow> string \<Rightarrow> exn + json" where
  "get_org_repos e org = fetch_json e (org_repos_url org)"

section \<open>Commit statistics\<close>

text \<open>The body of the \<^verbatim>\<open>try\<close> of \<^verbatim>\<open>get_commit_stats\<close>; the status code is not looked at.\<close>

definition get_commit_stats_try :: "env \<Rightarrow> string \<Rightarrow> exn + json" where
  "get_commit_stats_try e url =
     (case http_get e url of
        Inl x \<Rightarrow> Inl x
      | Inr r \<Rightarrow>
          (case response_json r of
             Inl x \<Rightarrow> Inl x
           | Inr v \<Rightarrow> py_get v ''stats'' (JObj [])))"

text \<open>\<^verbatim>\<open>except Exception\<close>: the exception is logged and \<^verbatim>\<open>{}\<close> is returned.\<close>

definition get_commit_stats :: "env \<Rightarrow> string \<Rightarrow> exn + json" where
  "get_commit_stats e url =
     (case get_commit_stats_try e url of
        Inl x \<Rightarrow> Inr (JObj [])
      | Inr v \<Rightarrow> Inr v)"

section \<open>Per-repository aggregation\<close>

record repo_result =
  commits :: int
  issues :: int
  pulls :: int
  additions :: pynum
  deletions :: pynum

definition empty_result :: repo_result where
  "empty_result =
     \<lparr>commits = 0, issues = 0, pulls = 0, additions = PInt 0, deletions = PInt 0\<rparr>"

text \<open>\<^verbatim>\<open>params.get(key, True)\<close>\<close>

definition enabled :: "(string \<rightharpoonup> bool) \<Rightarrow> string \<Rightarrow> bool" where
  "enabled params k = (case params k of None \<Rightarrow> True | Some b \<Rightarrow> b)"

definition commits_url :: "string \<Rightarrow> string \<Rightarrow> string" where
  "commits_url full_name username =
     GITHUB_API @ ''/repos/'' @ full_name @ ''/commits?author='' @ username @ ''&per_page=100''"

definition commit_detail_url :: "string \<Rightarrow> string \<Rightarrow> string" where
  "commit_detail_url full_name sha = GITHUB_API @ ''/repos/'' @ full_name @ ''/commits/'' @ sha"

definition issues_url :: "string \<Rightarrow> string \<Rightarrow> string" where
  "issues_url full_name username =
     GITHUB_API @ ''/repos/'' @ full_name @ ''/issues?creator='' @ username
       @ ''&state=all&per_page=100''"

definition pulls_url :: "string \<Rightarrow> string \<Rightarrow> string" where
  "pulls_url full_name username =
     GITHUB_API @ ''/repos/'' @ full_name @ ''/pulls?state=all&creator='' @ username
       @ ''&per_page=100''"

text \<open>
  The loop that builds \<^verbatim>\<open>commit_tasks\<close>: one detail URL for every commit whose
  \<^verbatim>\<open>sha\<close> is truthy. A commit that is no dict has no \<^verbatim>\<open>get\<close>.
\<close>

fun commit_tasks :: "env \<Rightarrow> string \<Rightarrow> json list \<Rightarrow> exn + string list" where
  "commit_tasks e full_name [] = Inr []"
| "commit_tasks e full_name (commit # rest) =
     (case py_get commit ''sha'' JNull of
        Inl x \<Rightarrow> Inl x
      | Inr sha \<Rightarrow>
          (case commit_tasks e full_name rest of
             Inl x \<Rightarrow> Inl x
           | Inr urls \<Rightarrow>
               Inr (if truthy sha then commit_detail_url full_name (fstr e sha) # urls
                    else urls)))"

text \<open>
  The loop over the gathered \<^verbatim>\<open>commit_stats\<close>: an entry that is an exception or not a
  dict is skipped.
\<close>

fun add_stats :: "env \<Rightarrow> repo_result \<Rightarrow> (exn + json) list \<Rightarrow> exn + repo_result" where
  "add_stats e r [] = Inr r"
| "add_stats e r (Inr (JObj kvs) # rest) =
     (case py_get (JObj kvs) ''additions'' (JInt 0) of
        Inl x \<Rightarrow> Inl x
      | Inr a \<Rightarrow>
          (case py_iadd e (additions r) a of
             Inl x \<Rightarrow> Inl x
           | Inr a' \<Rightarrow>
               (case py_get (JObj kvs) ''deletions'' (JInt 0) of
                  Inl x \<Rightarrow> Inl x
                | Inr d \<Rightarrow>
                    (case py_iadd e (deletions r) d of
                       Inl x \<Rightarrow> Inl x
                     | Inr d' \<Rightarrow> add_stats e (r\<lparr>additions := a', deletions := d'\<rparr>) rest))))"
| "add_stats e r (_ # rest) = add_stats e r rest"

text \<open>\<^verbatim>\<open>sum(1 for issue in issues if 'pull_request' not in issue)\<close>\<close>

fun count_issues :: "json list \<Rightarrow> exn + int" where
  "count_issues [] = Inr 0"
| "count_issues (issue # rest) =
     (case py_in ''pull_request'' issue of
        Inl x \<Rightarrow> Inl x
      | Inr marked \<Rightarrow>
          (case count_issues rest of
             Inl x \<Rightarrow> Inl x
           | Inr n \<Rightarrow> Inr ((if \<not> marked then 1 else 0) + n)))"

definition commits_branch ::
  "env \<Rightarrow> string \<Rightarrow> string \<Rightarrow> (string \<rightharpoonup> bool) \<Rightarrow> repo_result \<Rightarrow> exn + repo_result" where
  "commits_branch e full_name username params r =
     (if enabled params ''commits'' then
        (case fetch_json_with_client e (commits_url full_name username) of
           Inl x \<Rightarrow> Inl x
         | Inr cs \<Rightarrow>
             (case py_len cs of
                Inl x \<Rightarrow> Inl x
              | Inr n \<Rightarrow>
                  (case py_iter cs of
                     Inl x \<Rightarrow> Inl x
                   | Inr items \<Rightarrow>
                       (case commit_tasks e full_name items of
                          Inl x \<Rightarrow> Inl x
                        | Inr urls \<Rightarrow>
                            add_stats e (r\<lparr>commits := n\<rparr>) (map (get_commit_stats e) urls)))))
      else Inr r)"

definition issues_branch ::
  "env \<Rightarrow> string \<Rightarrow> string \<Rightarrow> (string \<rightharpoonup> bool) \<Rightarrow> repo_result \<Rightarrow> exn + repo_result" where
  "issues_branch e full_name username params r =
     (if enabled params ''issues'' then
        (case fetch_json_with_client e (issues_url full_name username) of
           Inl x \<Rightarrow> Inl x
         | Inr found \<Rightarrow>
             (case py_iter found of
                Inl x \<Rightarrow> Inl x
              | Inr items \<Rightarrow>
                  (case count_issues items of
                     Inl x \<Rightarrow> Inl x
                   | Inr n \<Rightarrow> Inr (r\<lparr>issues := n\<rparr>))))
      else Inr r)"

definition pulls_branch ::
  "env \<Rightarrow> string \<Rightarrow> string \<Rightarrow> (string \<rightharpoonup> bool) \<Rightarrow> repo_result \<Rightarrow> exn + repo_result" where
  "pulls_branch e full_name username params r =
     (if enabled params ''pulls'' then
        (case fetch_json_with_client e (pulls_url full_name username) of
           Inl x \<Rightarrow> Inl x
         | Inr ps \<Rightarrow>
             (case py_len ps of
                Inl x \<Rightarrow> Inl x
              | Inr n \<Rightarrow> Inr (r\<lparr>pulls := n\<rparr>)))
      else Inr r)"

text \<open>\<^verbatim>\<open>process_repo\<close>: the three \<^verbatim>\<open>if\<close> blocks in the order of the source.\<close>

definition process_repo ::
  "env \<Rightarrow> string \<Rightarrow> string \<Rightarrow> (string \<rightharpoonup> bool) \<Rightarrow> exn + repo_result" where
  "process_repo e full_name username params =
     (case commits_branch e full_name username params empty_result of
        Inl x \<Rightarrow> Inl x
      | Inr r1 \<Rightarrow>
          (case issues_branch e full_name username params r1 of
             Inl x \<Rightarrow> Inl x
           | Inr r2 \<Rightarrow> pulls_branch e full_name username params r2))"

section \<open>Organization aggregation\<close>

record GitHubContributions =
  username :: string
  organization :: string
  total_commits :: int
  total_issues :: int
  total_pull_requests :: int
  total_lines_added :: int
  total_lines_deleted :: int

text \<open>
  The loop that builds \<^verbatim>\<open>repo_tasks\<close>: the full name of every repository, from its
  \<^verbatim>\<open>name\<close>. No request is sent here; an exception leaves the function.
\<close>

fun repo_tasks :: "env \<Rightarrow> string \<Rightarrow> json list \<Rightarrow> exn + string list" where
  "repo_tasks e org [] = Inr []"
| "repo_tasks e org (repo # rest) =
     (case py_getitem repo ''name'' of
        Inl x \<Rightarrow> Inl x
      | Inr repo_name \<Rightarrow>
          (case repo_tasks e org rest of
             Inl x \<Rightarrow> Inl x
           | Inr names \<Rightarrow> Inr ((org @ ''/'' @ fstr e repo_name) # names)))"

text \<open>
  \<^verbatim>\<open>asyncio.gather(*repo_tasks, return_exceptions=True)\<close>: the outcome of every task, an
  exception or a result, in the order of the tasks. The answers of \<open>http_get\<close> do not
  depend on the interleaving, so each task is run on its own.
\<close>

definition gather_repos ::
  "env \<Rightarrow> string \<Rightarrow> (string \<rightharpoonup> bool) \<Rightarrow> string list \<Rightarrow> (exn + repo_result) list" where
  "gather_repos e user params names = map (\<lambda>full_name. process_repo e full_name user params) names"

text \<open>
  The five running totals of \<^verbatim>\<open>count_user_contributions\<close>. The first three only ever
  receive lengths and counts; the line totals receive what the statistics carried.
\<close>

record totals =
  sum_commits :: int
  sum_issues :: int
  sum_pull_requests :: int
  sum_lines_added :: pynum
  sum_lines_deleted :: pynum

definition zero_totals :: totals where
  "zero_totals =
     \<lparr>sum_commits = 0, sum_issues = 0, sum_pull_requests = 0, sum_lines_added = PInt 0,
      sum_lines_deleted = PInt 0\<rparr>"

text \<open>The loop over \<^verbatim>\<open>results\<close>: an exception among the results is passed over.\<close>

fun add_results :: "env \<Rightarrow> totals \<Rightarrow> (exn + repo_result) list \<Rightarrow> exn + totals" where
  "add_results e t [] = Inr t"
| "add_results e t (Inl x # rest) = add_results e t rest"
| "add_results e t (Inr r # rest) =
     (case py_add e (sum_lines_added t) (additions r) of
        Inl x \<Rightarrow> Inl x
      | Inr a \<Rightarrow>
          (case py_add e (sum_lines_deleted t) (deletions r) of
             Inl x \<Rightarrow> Inl x
           | Inr d \<Rightarrow>
               add_results e
                 \<lparr>sum_commits = sum_commits t + commits r,
                  sum_issues = sum_issues t + issues r,
                  sum_pull_requests = sum_pull_requests t + pulls r,
                  sum_lines_added = a,
                  sum_lines_deleted = d\<rparr>
                 rest))"

text \<open>
  The constructor of \<^verbatim>\<open>GitHubContributions\<close> validates its integer fields: an integer is
  taken as it is, a float only when it is finite and has no fractional part.
\<close>

fun validate_int :: "pynum \<Rightarrow> exn + int" where
  "validate_int (PInt n) = Inr n"
| "validate_int (PFloat (Finite q)) =
     (if q = of_int \<lfloor>q\<rfloor> then Inr \<lfloor>q\<rfloor> else Inl ValidationError)"
| "validate_int (PFloat _) = Inl ValidationError"

definition new_GitHubContributions :: "string \<Rightarrow> string \<Rightarrow> totals \<Rightarrow> exn + GitHubContributions" where
  "new_GitHubContributions user org t =
     (case validate_int (sum_lines_added t) of
        Inl x \<Rightarrow> Inl x
      | Inr a \<Rightarrow>
          (case validate_int (sum_lines_deleted t) of
             Inl x \<Rightarrow> Inl x
           | Inr d \<Rightarrow>
               Inr \<lparr>username = user, organization = org, total_commits = sum_commits t,
                    total_issues = sum_issues t, total_pull_requests = sum_pull_requests t,
                    total_lines_added = a, total_lines_deleted = d\<rparr>))"

definition count_user_contributions ::
  "env \<Rightarrow> string \<Rightarrow> string \<Rightarrow> (string \<rightharpoonup> bool) \<Rightarrow> exn + GitHubContributions" where
  "count_user_contributions e user org params =
     (case get_org_repos e org of
        Inl x \<Rightarrow> Inl x
      | Inr repos \<Rightarrow>
          (case py_iter repos of
             Inl x \<Rightarrow> Inl x
           | Inr items \<Rightarrow>
               (case repo_tasks e org items of
                  Inl x \<Rightarrow> Inl x
                | Inr names \<Rightarrow>
                    (case add_results e zero_totals (gather_repos e user params names) of
                       Inl x \<Rightarrow> Inl x
                     | Inr t \<Rightarrow> new_GitHubContributions user org t))))"

text \<open>The two public operations.\<close>

definition getAllGitHubData :: "env \<Rightarrow> string \<Rightarrow> exn + GitHubContributions" where
  "getAllGitHubData e user =
     count_user_contributions e user ''Dijkstra-Edu''
       [''commits'' \<mapsto> True, ''issues'' \<mapsto> True, ''pulls'' \<mapsto> True]"

definition getGitHubDataWithSearchParams ::
  "env \<Rightarrow> string \<Rightarrow> (string \<rightharpoonup> bool) \<Rightarrow> exn + GitHubContributions" where
  "getGitHubDataWithSearchParams e user searchParams =
     count_user_contributions e user ''Dijkstra-Edu'' searchParams"

section \<open>Reading the results of a fan-in\<close>

text \<open>The partial results of the tasks that did not fail, in the order of the tasks.\<close>

fun successes :: "(exn + 'a) list \<Rightarrow> 'a list" where
  "successes [] = []"
| "successes (Inl x # rest) = successes rest"
| "successes (Inr r # rest) = r # successes rest"

text \<open>Whether a number is an integer, and the integer it is.\<close>

fun is_int :: "pynum \<Rightarrow> bool" where
  "is_int (PInt n) = True"
| "is_int (PFloat f) = False"

fun int_of :: "pynum \<Rightarrow> int" where
  "int_of (PInt n) = n"
| "int_of (PFloat f) = 0"

section \<open>A small upstream for concrete runs\<close>

subsection \<open>The float addition of the interpreter\<close>

text \<open>
  A float of the interpreter is a binary64 number: 53 significant bits, rounding to the
  nearest representable value and to the even one on a tie, infinity from 2 to the power
  1024 on.
  \<open>to_double\<close> rounds a rational number this way, \<open>as_double\<close> is the conversion of an
  operand (an integer too large for a float raises), \<open>double_add\<close> the sum of two floats.
\<close>

function bit_length :: "int \<Rightarrow> int" where
  "bit_length n = (if n \<le> 0 then 0 else 1 + bit_length (n div 2))"
  by pat_completeness auto
termination
  by (relation "measure nat") auto

definition pow2 :: "int \<Rightarrow> rat" where
  "pow2 k = (if 0 \<le> k then 2 ^ nat k else 1 / 2 ^ nat (- k))"

text \<open>For a positive \<open>q\<close>, the exponent \<open>k\<close> with \<open>pow2 k \<le> q < pow2 (k + 1)\<close>.\<close>

definition binade :: "rat \<Rightarrow> int" where
  "binade q =
     (let d = bit_length (fst (quotient_of q)) - bit_length (snd (quotient_of q))
      in if pow2 d \<le> q then d else d - 1)"

definition round_half_even :: "rat \<Rightarrow> int" where
  "round_half_even q =
     (let n = \<lfloor>q\<rfloor>; r = q - of_int n
      in if r < 1 / 2 then n else if 1 / 2 < r then n + 1 else if even n then n else n + 1)"

definition to_double :: "rat \<Rightarrow> pyfloat" where
  "to_double q =
     (if q = 0 then Finite 0
      else
        (let ulp = pow2 (max (binade \<bar>q\<bar>) (- 1022) - 52);
             r = of_int (round_half_even (\<bar>q\<bar> / ulp)) * ulp
         in if pow2 1024 \<le> r then (if 0 < q then PosInf else NegInf)
            else Finite (if 0 < q then r else - r)))"

fun as_double :: "pynum \<Rightarrow> exn + pyfloat" where
  "as_double (PFloat f) = Inr f"
| "as_double (PInt n) =
     (case to_double (of_int n) of Finite q \<Rightarrow> Inr (Finite q) | _ \<Rightarrow> Inl OverflowError)"

fun double_add :: "pyfloat \<Rightarrow> pyfloat \<Rightarrow> pyfloat" where
  "double_add (Finite x) (Finite y) = to_double (x + y)"
| "double_add NaN _ = NaN"
| "double_add _ NaN = NaN"
| "double_add PosInf NegInf = NaN"
| "double_add NegInf PosInf = NaN"
| "double_add PosInf _ = PosInf"
| "double_add _ PosInf = PosInf"
| "double_add NegInf _ = NegInf"
| "double_add _ NegInf = NegInf"

definition binary64_add :: "pynum \<Rightarrow> pynum \<Rightarrow> exn + pyfloat" where
  "binary64_add a b =
     (case as_double a of
        Inl x \<Rightarrow> Inl x
      | Inr f \<Rightarrow> (case as_double b of Inl x \<Rightarrow> Inl x | Inr g \<Rightarrow> Inr (double_add f g)))"

subsection \<open>The pages of the upstream\<close>

text \<open>
  Organization \<^verbatim>\<open>Dijkstra-Edu\<close> has the repositories r1, r2 and r3 and user \<^verbatim>\<open>alice\<close>
  contributes to them: r1 has three commits (the detail request of the third one times
  out), two issue items of which one is a pull request, and two pull requests; the commit
  list of r2 answers 500; r3 has one commit and one pull request. Repository r4, which the
  organization does not list, has one commit whose detail request is answered with status
  500 and a body that carries statistics. \<^verbatim>\<open>empty-org\<close> has no repository. In
  \<^verbatim>\<open>half-org\<close> the only commit of h1 has 1.5 additions, the commit list of h2 answers
  500 and h3 has one commit. In \<^verbatim>\<open>big-org\<close> each of b1, b2 and b3 has one commit, with
  9007199254740992.0, 1.0 and 1.0 additions. Every URL that is not listed answers 404.
\<close>

definition json_page :: "string \<Rightarrow> json \<Rightarrow> exn + response" where
  "json_page body v = Inr \<lparr>status_code = 200, body_text = body, json_body = Some v\<rparr>"

definition not_found :: response where
  \<open>not_found =
     \<lparr>status_code = 404, body_text = ''{"message":"Not Found"}'',
      json_body = Some (JObj [(''message'', JStr ''Not Found'')])\<rparr>\<close>

definition created_page :: response where
  "created_page = \<lparr>status_code = 201, body_text = ''[]'', json_body = Some (JList [])\<rparr>"

definition odd_stats_page :: response where
  \<open>odd_stats_page =
     \<lparr>status_code = 200, body_text = ''{"stats":5}'',
      json_body = Some (JObj [(''stats'', JInt 5)])\<rparr>\<close>

definition error_page_with_stats :: response where
  \<open>error_page_with_stats =
     \<lparr>status_code = 500, body_text = ''{"stats":{"additions":7,"deletions":1}}'',
      json_body =
        Some (JObj [(''stats'', JObj [(''additions'', JInt 7), (''deletions'', JInt 1)])])\<rparr>\<close>

definition demo_pages :: "(string \<times> (exn + response)) list" where
  \<open>demo_pages =
    [(org_repos_url ''Dijkstra-Edu'',
        json_page ''[{"name":"r1"},{"name":"r2"},{"name":"r3"}]''
          (JList [JObj [(''name'', JStr ''r1'')], JObj [(''name'', JStr ''r2'')],
                  JObj [(''name'', JStr ''r3'')]])),
     (org_repos_url ''empty-org'', json_page ''[]'' (JList [])),
     (commits_url ''Dijkstra-Edu/r1'' ''alice'',
        json_page ''[{"sha":"a1"},{"sha":"a2"},{"sha":"a3"}]''
          (JList [JObj [(''sha'', JStr ''a1'')], JObj [(''sha'', JStr ''a2'')],
                  JObj [(''sha'', JStr ''a3'')]])),
     (commit_detail_url ''Dijkstra-Edu/r1'' ''a1'',
        json_page ''{"stats":{"additions":4,"deletions":2}}''
          (JObj [(''stats'', JObj [(''additions'', JInt 4), (''deletions'', JInt 2)])])),
     (commit_detail_url ''Dijkstra-Edu/r1'' ''a2'',
        json_page ''{"stats":{"additions":6,"deletions":0}}''
          (JObj [(''stats'', JObj [(''additions'', JInt 6), (''deletions'', JInt 0)])])),
     (commit_detail_url ''Dijkstra-Edu/r1'' ''a3'', Inl (RequestError ''timed out'')),
     (issues_url ''Dijkstra-Edu/r1'' ''alice'',
        json_page ''[{"number":1},{"number":2,"pull_request":{}}]''
          (JList [JObj [(''number'', JInt 1)],
                  JObj [(''number'', JInt 2), (''pull_request'', JObj [])]])),
     (pulls_url ''Dijkstra-Edu/r1'' ''alice'',
        json_page ''[{"number":2},{"number":3}]''
          (JList [JObj [(''number'', JInt 2)], JObj [(''number'', JInt 3)]])),
     (commits_url ''Dijkstra-Edu/r2'' ''alice'',
        Inr \<lparr>status_code = 500, body_text = ''boom'', json_body = None\<rparr>),
     (commits_url ''Dijkstra-Edu/r3'' ''alice'',
        json_page ''[{"sha":"c1"}]'' (JList [JObj [(''sha'', JStr ''c1'')]])),
     (commit_detail_url ''Dijkstra-Edu/r3'' ''c1'',
        json_page ''{"stats":{"additions":1,"deletions":1}}''
          (JObj [(''stats'', JObj [(''additions'', JInt 1), (''deletions'', JInt 1)])])),
     (issues_url ''Dijkstra-Edu/r3'' ''alice'', json_page ''[]'' (JList [])),
     (pulls_url ''Dijkstra-Edu/r3'' ''alice'',
        json_page ''[{"number":9}]'' (JList [JObj [(''number'', JInt 9)]])),
     (''https://api.github.com/created'', Inr created_page),
     (commit_detail_url ''Dijkstra-Edu/r1'' ''odd'', Inr odd_stats_page),
     (commits_url ''Dijkstra-Edu/r4'' ''alice'',
        json_page ''[{"sha":"e1"}]'' (JList [JObj [(''sha'', JStr ''e1'')]])),
     (commit_detail_url ''Dijkstra-Edu/r4'' ''e1'', Inr error_page_with_stats),
     (org_repos_url ''half-org'',
        json_page ''[{"name":"h1"},{"name":"h2"},{"name":"h3"}]''
          (JList [JObj [(''name'', JStr ''h1'')], JObj [(''name'', JStr ''h2'')],
                  JObj [(''name'', JStr ''h3'')]])),
     (commits_url ''half-org/h1'' ''alice'',
        json_page ''[{"sha":"f1"}]'' (JList [JObj [(''sha'', JStr ''f1'')]])),
     (commit_detail_url ''half-org/h1'' ''f1'',
        json_page ''{"stats":{"additions":1.5,"deletions":0}}''
          (JObj [(''stats'', JObj [(''additions'', JFloat (Finite (3 / 2))),
                                    (''deletions'', JInt 0)])])),
     (commits_url ''half-org/h2'' ''alice'',
        Inr \<lparr>status_code = 500, body_text = ''boom'', json_body = None\<rparr>),
     (commits_url ''half-org/h3'' ''alice'',
        json_page ''[{"sha":"f3"}]'' (JList [JObj [(''sha'', JStr ''f3'')]])),
     (commit_detail_url ''half-org/h3'' ''f3'',
        json_page ''{"stats":{"additions":2,"deletions":1}}''
          (JObj [(''stats'', JObj [(''additions'', JInt 2), (''deletions'', JInt 1)])])),
     (org_repos_url ''big-org'',
        json_page ''[{"name":"b1"},{"name":"b2"},{"name":"b3"}]''
          (JList [JObj [(''name'', JStr ''b1'')], JObj [(''name'', JStr ''b2'')],
                  JObj [(''name'', JStr ''b3'')]])),
     (commits_url ''big-org/b1'' ''alice'',
        json_page ''[{"sha":"g1"}]'' (JList [JObj [(''sha'', JStr ''g1'')]])),
     (commit_detail_url ''big-org/b1'' ''g1'',
        json_page ''{"stats":{"additions":9007199254740992.0,"deletions":0}}''
          (JObj [(''stats'', JObj [(''additions'', JFloat (Finite 9007199254740992)),
                                    (''deletions'', JInt 0)])])),
     (commits_url ''big-org/b2'' ''alice'',
        json_page ''[{"sha":"g2"}]'' (JList [JObj [(''sha'', JStr ''g2'')]])),
     (commit_detail_url ''big-org/b2'' ''g2'',
        json_page ''{"stats":{"additions":1.0,"deletions":0}}''
          (JObj [(''stats'', JObj [(''additions'', JFloat (Finite 1)),
                                    (''deletions'', JInt 0)])])),
     (commits_url ''big-org/b3'' ''alice'',
        json_page ''[{"sha":"g3"}]'' (JList [JObj [(''sha'', JStr ''g3'')]])),
     (commit_detail_url ''big-org/b3'' ''g3'',
        json_page ''{"stats":{"additions":1.0,"deletions":0}}''
          (JObj [(''stats'', JObj [(''additions'', JFloat (Finite 1)),
                                    (''deletions'', JInt 0)])]))]\<close>

definition demo_env :: env where
  "demo_env =
     \<lparr>http_get = (\<lambda>url. case map_of demo_pages url of None \<Rightarrow> Inr not_found | Some a \<Rightarrow> a),
      py_str = (\<lambda>v. ''?''),
      float_add = binary64_add\<rparr>"

section \<open>Facts shared by the claims\<close>

subsection \<open>The fold of the gathered results\<close>




lemma set_successes: "set (successes rs) = {r. Inr r \<in> set rs}"
  by (induction rs rule: successes.induct) auto

lemma add_results_counts:
  "add_results e t rs = Inr t' \<Longrightarrow>
     sum_commits t' = sum_commits t + sum_list (map commits (successes rs)) \<and>
     sum_issues t' = sum_issues t + sum_list (map issues (successes rs)) \<and>
     sum_pull_requests t' = sum_pull_requests t + sum_list (map pulls (successes rs))"
proof (induction e t rs rule: add_results.induct)
  case (3 e t r rest)
  then show ?case
    by (auto split: sum.splits)
qed simp_all

lemma add_results_int_lines:
  assumes "is_int (sum_lines_added t)" "is_int (sum_lines_deleted t)"
    and "\<And>r. r \<in> set (successes rs) \<Longrightarrow> is_int (additions r) \<and> is_int (deletions r)"
  shows "add_results e t rs =
     Inr \<lparr>sum_commits = sum_commits t + sum_list (map commits (successes rs)),
          sum_issues = sum_issues t + sum_list (map issues (successes rs)),
          sum_pull_requests = sum_pull_requests t + sum_list (map pulls (successes rs)),
          sum_lines_added =
            PInt (int_of (sum_lines_added t) + sum_list (map (\<lambda>r. int_of (additions r)) (successes rs))),
          sum_lines_deleted =
            PInt (int_of (sum_lines_deleted t)
                  + sum_list (map (\<lambda>r. int_of (deletions r)) (successes rs)))\<rparr>"
  using assms
proof (induction e t rs rule: add_results.induct)
  case (1 e t)
  then show ?case
    by (cases "sum_lines_added t"; cases "sum_lines_deleted t") simp_all
next
  case (2 e t x rest)
  then show ?case by simp
next
  case (3 e t r rest)
  have "is_int (additions r) \<and> is_int (deletions r)"
    using "3.prems"(3) by simp
  with "3.prems"(1,2) obtain a0 d0 a d where
    eqs: "sum_lines_added t = PInt a0" "sum_lines_deleted t = PInt d0"
      "additions r = PInt a" "deletions r = PInt d"
    by (cases "sum_lines_added t"; cases "sum_lines_deleted t"; cases "additions r";
        cases "deletions r") auto
  have "add_results e
      \<lparr>sum_commits = sum_commits t + commits r, sum_issues = sum_issues t + issues r,
       sum_pull_requests = sum_pull_requests t + pulls r, sum_lines_added = PInt (a0 + a),
       sum_lines_deleted = PInt (d0 + d)\<rparr> rest = Inr
      \<lparr>sum_commits = sum_commits t + commits r + sum_list (map commits (successes rest)),
       sum_issues = sum_issues t + issues r + sum_list (map issues (successes rest)),
       sum_pull_requests = sum_pull_requests t + pulls r + sum_list (map pulls (successes rest)),
       sum_lines_added = PInt (a0 + a + sum_list (map (\<lambda>r. int_of (additions r)) (successes rest))),
       sum_lines_deleted = PInt (d0 + d + sum_list (map (\<lambda>r. int_of (deletions r)) (successes rest)))\<rparr>"
    using "3.IH" [of "PInt (a0 + a)" "PInt (d0 + d)"] "3.prems"(3) eqs by simp
  with eqs show ?case
    by (simp add: add.assoc)
qed





lemma new_GitHubContributions_Inr:
  "new_GitHubContributions user org t = Inr rep \<Longrightarrow>
     total_commits rep = sum_commits t \<and> total_issues rep = sum_issues t \<and>
     total_pull_requests rep = sum_pull_requests t \<and>
     validate_int (sum_lines_added t) = Inr (total_lines_added rep) \<and>
     validate_int (sum_lines_deleted t) = Inr (total_lines_deleted rep)"
  by (auto simp: new_GitHubContributions_def split: sum.splits)



lemma count_user_contributions_Inr:
  "count_user_contributions e user org params = Inr rep \<Longrightarrow>
     \<exists>names t. add_results e zero_totals (gather_repos e user params names) = Inr t \<and>
               new_GitHubContributions user org t = Inr rep"
  by (auto simp: count_user_contributions_def split: sum.splits)

subsection \<open>The aggregation of one repository\<close>

lemma add_stats_keeps:
  "add_stats e r xs = Inr r' \<Longrightarrow>
     commits r' = commits r \<and> issues r' = issues r \<and> pulls r' = pulls r"
  by (induction e r xs rule: add_stats.induct) (auto split: sum.splits option.splits)

lemma commits_branch_off:
  "\<not> enabled params ''commits'' \<Longrightarrow> commits_branch e full_name user params r = Inr r"
  by (simp add: commits_branch_def)

lemma issues_branch_off:
  "\<not> enabled params ''issues'' \<Longrightarrow> issues_branch e full_name user params r = Inr r"
  by (simp add: issues_branch_def)

lemma pulls_branch_off:
  "\<not> enabled params ''pulls'' \<Longrightarrow> pulls_branch e full_name user params r = Inr r"
  by (simp add: pulls_branch_def)

lemma commits_branch_keeps:
  "commits_branch e full_name user params r = Inr r' \<Longrightarrow> issues r' = issues r \<and> pulls r' = pulls r"
  by (auto simp: commits_branch_def split: if_splits sum.splits dest!: add_stats_keeps)

lemma issues_branch_keeps:
  "issues_branch e full_name user params r = Inr r' \<Longrightarrow>
     commits r' = commits r \<and> pulls r' = pulls r \<and> additions r' = additions r \<and>
     deletions r' = deletions r"
  by (auto simp: issues_branch_def split: if_splits sum.splits)

lemma pulls_branch_keeps:
  "pulls_branch e full_name user params r = Inr r' \<Longrightarrow>
     commits r' = commits r \<and> issues r' = issues r \<and> additions r' = additions r \<and>
     deletions r' = deletions r"
  by (auto simp: pulls_branch_def split: if_splits sum.splits)

lemma process_repo_Inr:
  "process_repo e full_name user params = Inr r \<Longrightarrow>
     \<exists>r1 r2. commits_branch e full_name user params empty_result = Inr r1 \<and>
             issues_branch e full_name user params r1 = Inr r2 \<and>
             pulls_branch e full_name user params r2 = Inr r"
  by (auto simp: process_repo_def split: sum.splits)

lemma process_repo_commits_off:
  assumes "\<not> enabled params ''commits''" "process_repo e full_name user params = Inr r"
  shows "commits r = 0 \<and> additions r = PInt 0 \<and> deletions r = PInt 0"
proof -
  from assms(2) obtain r1 r2 where
    c: "commits_branch e full_name user params empty_result = Inr r1" and
    i: "issues_branch e full_name user params r1 = Inr r2" and
    p: "pulls_branch e full_name user params r2 = Inr r"
    using process_repo_Inr by blast
  from c assms(1) have "r1 = empty_result"
    by (simp add: commits_branch_off)
  with issues_branch_keeps [OF i] pulls_branch_keeps [OF p] show ?thesis
    by (simp add: empty_result_def)
qed

lemma process_repo_issues_off:
  assumes "\<not> enabled params ''issues''" "process_repo e full_name user params = Inr r"
  shows "issues r = 0"
proof -
  from assms(2) obtain r1 r2 where
    c: "commits_branch e full_name user params empty_result = Inr r1" and
    i: "issues_branch e full_name user params r1 = Inr r2" and
    p: "pulls_branch e full_name user params r2 = Inr r"
    using process_repo_Inr by blast
  from i assms(1) have "r2 = r1"
    by (simp add: issues_branch_off)
  with commits_branch_keeps [OF c] pulls_branch_keeps [OF p] show ?thesis
    by (simp add: empty_result_def)
qed

lemma process_repo_pulls_off:
  assumes "\<not> enabled params ''pulls''" "process_repo e full_name user params = Inr r"
  shows "pulls r = 0"
proof -
  from assms(2) obtain r1 r2 where
    c: "commits_branch e full_name user params empty_result = Inr r1" and
    i: "issues_branch e full_name user params r1 = Inr r2" and
    p: "pulls_branch e full_name user params r2 = Inr r"
    using process_repo_Inr by blast
  from p assms(1) have "r = r2"
    by (simp add: pulls_branch_off)
  with commits_branch_keeps [OF c] issues_branch_keeps [OF i] show ?thesis
    by (simp add: empty_result_def)
qed

lemma successes_gather_repos:
  "r \<in> set (successes (gather_repos e user params names)) \<Longrightarrow>
     \<exists>full_name. process_repo e full_name user params = Inr r"
  by (auto simp: set_successes gather_repos_def)

lemma sum_list_all_zero:
  "(\<And>x. x \<in> set xs \<Longrightarrow> f x = (0::int)) \<Longrightarrow> sum_list (map f xs) = 0"
  by (induction xs) simp_all

lemma enabled_absent_as_True:
  "params k = None \<Longrightarrow> enabled (params(k \<mapsto> True)) k' = enabled params k'"
  by (simp add: enabled_def)

lemma process_repo_absent_key:
  "params k = None \<Longrightarrow>
     process_repo e full_name user (params(k \<mapsto> True)) = process_repo e full_name user params"
  by (simp add: process_repo_def commits_branch_def issues_branch_def pulls_branch_def
      enabled_absent_as_True cong: sum.case_cong)

lemma count_issues_objects:
  "count_issues (map JObj objs) =
     Inr (int (length (filter (\<lambda>kvs. ''pull_request'' \<notin> fst ` set kvs) objs)))"
  by (induction objs) simp_all

lemma process_repo_commits_count:
  assumes "enabled params ''commits''"
    and "fetch_json_with_client e (commits_url full_name user) = Inr cs"
    and "process_repo e full_name user params = Inr res"
  shows "py_len cs = Inr (commits res)"
proof -
  from assms(3) obtain r1 r2 where
    c: "commits_branch e full_name user params empty_result = Inr r1" and
    i: "issues_branch e full_name user params r1 = Inr r2" and
    p: "pulls_branch e full_name user params r2 = Inr res"
    using process_repo_Inr by blast
  from c assms(1,2) have "py_len cs = Inr (commits r1)"
    by (auto simp: commits_branch_def split: sum.splits dest!: add_stats_keeps)
  with issues_branch_keeps [OF i] pulls_branch_keeps [OF p] show ?thesis
    by simp
qed

lemma process_repo_issues_count:
  assumes "enabled params ''issues''"
    and "fetch_json_with_client e (issues_url full_name user) = Inr (JList (map JObj objs))"
    and "process_repo e full_name user params = Inr r"
  shows "issues r = int (length (filter (\<lambda>kvs. ''pull_request'' \<notin> fst ` set kvs) objs))"
proof -
  from assms(3) obtain r1 r2 where
    i: "issues_branch e full_name user params r1 = Inr r2" and
    p: "pulls_branch e full_name user params r2 = Inr r"
    using process_repo_Inr by blast
  from i assms(1,2) have
    "issues r2 = int (length (filter (\<lambda>kvs. ''pull_request'' \<notin> fst ` set kvs) objs))"
    by (auto simp: issues_branch_def count_issues_objects)
  with pulls_branch_keeps [OF p] show ?thesis
    by simp
qed

lemma process_repo_pulls_count:
  assumes "enabled params ''pulls''"
    and "fetch_json_with_client e (pulls_url full_name user) = Inr ps"
    and "process_repo e full_name user params = Inr r"
  shows "py_len ps = Inr (pulls r)"
proof -
  from assms(3) obtain r2 where
    p: "pulls_branch e full_name user params r2 = Inr r"
    using process_repo_Inr by blast
  from p assms(1,2) show ?thesis
    by (auto simp: pulls_branch_def split: sum.splits)
qed

lemma process_repo_fetch_errors:
  "enabled params ''commits'' \<Longrightarrow>
     fetch_json_with_client e (commits_url full_name user) = Inl x \<Longrightarrow>
     process_repo e full_name user params = Inl x"
  "enabled params ''issues'' \<Longrightarrow>
     commits_branch e full_name user params empty_result = Inr r1 \<Longrightarrow>
     fetch_json_with_client e (issues_url full_name user) = Inl x \<Longrightarrow>
     process_repo e full_name user params = Inl x"
  "enabled params ''pulls'' \<Longrightarrow>
     commits_branch e full_name user params empty_result = Inr r1 \<Longrightarrow>
     issues_branch e full_name user params r1 = Inr r2 \<Longrightarrow>
     fetch_json_with_client e (pulls_url full_name user) = Inl x \<Longrightarrow>
     process_repo e full_name user params = Inl x"
  by (simp_all add: process_repo_def commits_branch_def issues_branch_def pulls_branch_def)

lemma add_results_zero_lines:
  assumes "sum_lines_added t = PInt 0" "sum_lines_deleted t = PInt 0"
    and "\<And>r. r \<in> set (successes rs) \<Longrightarrow> additions r = PInt 0 \<and> deletions r = PInt 0"
    and "add_results e t rs = Inr t'"
  shows "sum_lines_added t' = PInt 0 \<and> sum_lines_deleted t' = PInt 0"
proof -
  have ints: "\<And>r. r \<in> set (successes rs) \<Longrightarrow> is_int (additions r) \<and> is_int (deletions r)"
    using assms(3) by simp
  have "sum_list (map (\<lambda>r. int_of (additions r)) (successes rs)) = 0"
    by (rule sum_list_all_zero) (simp add: assms(3))
  moreover have "sum_list (map (\<lambda>r. int_of (deletions r)) (successes rs)) = 0"
    by (rule sum_list_all_zero) (simp add: assms(3))
  ultimately show ?thesis
    using add_results_int_lines [OF _ _ ints, where e = e and t = t] assms(1,2,4)
    by auto
qed

subsection \<open>One commit detail request\<close>









lemma py_add_zero: "py_add e n (PInt 0) = Inr n"
  by (cases n) simp_all

lemma add_stats_skip_empty: "add_stats e r (Inr (JObj []) # rest) = add_stats e r rest"
  by (simp add: py_add_zero)





lemma get_commit_stats_answered:
  assumes "http_get e url = Inr resp" "json_body resp = Some (JObj kvs)"
  shows "get_commit_stats e url =
           Inr (case map_of kvs ''stats'' of None \<Rightarrow> JObj [] | Some s \<Rightarrow> s)"
  using assms
  by (simp add: get_commit_stats_def get_commit_stats_try_def response_json_def
      split: option.split)




section \<open>The claims\<close>




text \<open>
  Claim C2, as amended. For a request that is answered, \<^verbatim>\<open>fetch_json\<close> and
  \<^verbatim>\<open>fetch_json_with_client\<close> raise the \<open>HTTPException\<close> that carries the status code and
  the body whenever the status is not 200; for status 200 they raise no \<open>HTTPException\<close>,
  and return the decoded body when the body decodes. The test of the source is
  \<^verbatim>\<open>status_code != 200\<close>, so the other statuses of the 2xx range are errors as well: the
  counterexample is a 201 response.
\<close>

theorem fetch_json_raises_unless_200:
  assumes "http_get e url = Inr r"
  shows "(status_code r \<noteq> 200 \<longrightarrow>
            fetch_json e url =
              Inl (HTTPException (status_code r) (''GitHub API error: '' @ body_text r)) \<and>
            fetch_json_with_client e url =
              Inl (HTTPException (status_code r) (''GitHub API error: '' @ body_text r)))
       \<and> (status_code r = 200 \<longrightarrow>
            fetch_json e url \<noteq> Inl (HTTPException c d) \<and>
            fetch_json_with_client e url \<noteq> Inl (HTTPException c d))
       \<and> (status_code r = 200 \<and> json_body r = Some v \<longrightarrow>
            fetch_json e url = Inr v \<and> fetch_json_with_client e url = Inr v)"
  using assms
  by (simp add: fetch_json_def fetch_json_with_client_def response_json_def split: option.split)

theorem fetch_json_raises_unless_200_witness:
  "http_get demo_env (org_repos_url ''nobody'') = Inr not_found
   \<and> status_code not_found \<noteq> 200
   \<and> fetch_json demo_env (org_repos_url ''nobody'') =
        Inl (HTTPException 404 (''GitHub API error: '' @ body_text not_found))
   \<and> fetch_json_with_client demo_env (org_repos_url ''nobody'') =
        Inl (HTTPException 404 (''GitHub API error: '' @ body_text not_found))
   \<and> http_get demo_env (org_repos_url ''empty-org'') =
        Inr \<lparr>status_code = 200, body_text = ''[]'', json_body = Some (JList [])\<rparr>
   \<and> fetch_json demo_env (org_repos_url ''empty-org'') \<noteq> Inl (HTTPException 200 ''[]'')
   \<and> fetch_json demo_env (org_repos_url ''empty-org'') = Inr (JList [])
   \<and> fetch_json_with_client demo_env (org_repos_url ''empty-org'') = Inr (JList [])"
proof -
  have a: "http_get demo_env (org_repos_url ''nobody'') = Inr not_found"
    by code_simp
  have b: "status_code not_found = 404"
    by (simp add: not_found_def)
  have c: "http_get demo_env (org_repos_url ''empty-org'') =
        Inr \<lparr>status_code = 200, body_text = ''[]'', json_body = Some (JList [])\<rparr>"
    by code_simp
  show ?thesis
    using fetch_json_raises_unless_200 [OF a] fetch_json_raises_unless_200 [OF c, of "200" "''[]''" "JList []"] a b c
    by simp
qed

theorem fetch_json_201_counterexample:
  "http_get demo_env ''https://api.github.com/created'' = Inr created_page
   \<and> status_code created_page = 201 \<and> json_body created_page = Some (JList [])
   \<and> fetch_json demo_env ''https://api.github.com/created'' =
       Inl (HTTPException 201 ''GitHub API error: []'')
   \<and> fetch_json_with_client demo_env ''https://api.github.com/created'' =
       Inl (HTTPException 201 ''GitHub API error: []'')"
  by code_simp




text \<open>
  Claim C4. In every report that \<^verbatim>\<open>count_user_contributions\<close> returns, a category whose
  flag is present with value false has total 0: \<open>total_commits\<close> for \<^verbatim>\<open>commits\<close>,
  \<open>total_issues\<close> for \<^verbatim>\<open>issues\<close>, \<open>total_pull_requests\<close> for \<^verbatim>\<open>pulls\<close>.
\<close>

theorem disabled_category_total_zero:
  assumes "count_user_contributions e user org params = Inr rep"
  shows "(params ''commits'' = Some False \<longrightarrow> total_commits rep = 0)
       \<and> (params ''issues'' = Some False \<longrightarrow> total_issues rep = 0)
       \<and> (params ''pulls'' = Some False \<longrightarrow> total_pull_requests rep = 0)"
proof -
  from assms obtain names t where
    t: "add_results e zero_totals (gather_repos e user params names) = Inr t" and
    rep: "new_GitHubContributions user org t = Inr rep"
    using count_user_contributions_Inr by blast
  let ?ok = "successes (gather_repos e user params names)"
  note sums = add_results_counts [OF t] new_GitHubContributions_Inr [OF rep]
  have "total_commits rep = 0" if "params ''commits'' = Some False"
  proof -
    from that have off: "\<not> enabled params ''commits''"
      by (simp add: enabled_def)
    have "sum_list (map commits ?ok) = 0"
      by (rule sum_list_all_zero) (use off process_repo_commits_off successes_gather_repos in blast)
    with sums show ?thesis
      by (simp add: zero_totals_def)
  qed
  moreover have "total_issues rep = 0" if "params ''issues'' = Some False"
  proof -
    from that have off: "\<not> enabled params ''issues''"
      by (simp add: enabled_def)
    have "sum_list (map issues ?ok) = 0"
      by (rule sum_list_all_zero) (use off process_repo_issues_off successes_gather_repos in blast)
    with sums show ?thesis
      by (simp add: zero_totals_def)
  qed
  moreover have "total_pull_requests rep = 0" if "params ''pulls'' = Some False"
  proof -
    from that have off: "\<not> enabled params ''pulls''"
      by (simp add: enabled_def)
    have "sum_list (map pulls ?ok) = 0"
      by (rule sum_list_all_zero) (use off process_repo_pulls_off successes_gather_repos in blast)
    with sums show ?thesis
      by (simp add: zero_totals_def)
  qed
  ultimately show ?thesis
    by blast
qed

theorem disabled_category_total_zero_witness:
  "count_user_contributions demo_env ''alice'' ''Dijkstra-Edu'' [''commits'' \<mapsto> False] =
     Inr \<lparr>username = ''alice'', organization = ''Dijkstra-Edu'', total_commits = 0,
          total_issues = 1, total_pull_requests = 3, total_lines_added = 0,
          total_lines_deleted = 0\<rparr>
   \<and> [''commits'' \<mapsto> False] ''commits'' = Some False
   \<and> count_user_contributions demo_env ''alice'' ''Dijkstra-Edu''
        [''issues'' \<mapsto> False, ''pulls'' \<mapsto> False] =
     Inr \<lparr>username = ''alice'', organization = ''Dijkstra-Edu'', total_commits = 4,
          total_issues = 0, total_pull_requests = 0, total_lines_added = 11,
          total_lines_deleted = 3\<rparr>
   \<and> [''issues'' \<mapsto> False, ''pulls'' \<mapsto> False] ''issues'' = Some False
   \<and> [''issues'' \<mapsto> False, ''pulls'' \<mapsto> False] ''pulls'' = Some False"
proof -
  have a: "count_user_contributions demo_env ''alice'' ''Dijkstra-Edu'' [''commits'' \<mapsto> False] =
     Inr \<lparr>username = ''alice'', organization = ''Dijkstra-Edu'', total_commits = 0,
          total_issues = 1, total_pull_requests = 3, total_lines_added = 0,
          total_lines_deleted = 0\<rparr>"
    by code_simp
  have b: "count_user_contributions demo_env ''alice'' ''Dijkstra-Edu''
        [''issues'' \<mapsto> False, ''pulls'' \<mapsto> False] =
     Inr \<lparr>username = ''alice'', organization = ''Dijkstra-Edu'', total_commits = 4,
          total_issues = 0, total_pull_requests = 0, total_lines_added = 11,
          total_lines_deleted = 3\<rparr>"
    by code_simp
  show ?thesis
    using disabled_category_total_zero [OF a] disabled_category_total_zero [OF b] a b
    by simp
qed

text \<open>
  Claim C5. When the issues branch runs and the issues endpoint answers with a list of
  objects, the \<open>issues\<close> count of the repository's result is the number of those objects
  that have no \<^verbatim>\<open>pull_request\<close> key. With two items of which one has the key, the
  count is 1 (the concrete run after the theorem).
\<close>

theorem issues_count_excludes_pull_requests:
  assumes "enabled params ''issues''"
    and "fetch_json_with_client e (issues_url full_name user) = Inr (JList (map JObj objs))"
    and "process_repo e full_name user params = Inr r"
  shows "issues r = int (length (filter (\<lambda>kvs. ''pull_request'' \<notin> fst ` set kvs) objs))"
  using assms by (rule process_repo_issues_count)

theorem issues_count_excludes_pull_requests_witness:
  "enabled Map.empty ''issues''
   \<and> fetch_json_with_client demo_env (issues_url ''Dijkstra-Edu/r1'' ''alice'') =
       Inr (JList (map JObj [[(''number'', JInt 1)],
                             [(''number'', JInt 2), (''pull_request'', JObj [])]]))
   \<and> process_repo demo_env ''Dijkstra-Edu/r1'' ''alice'' Map.empty =
       Inr \<lparr>commits = 3, issues = 1, pulls = 2, additions = PInt 10, deletions = PInt 2\<rparr>
   \<and> int (length (filter (\<lambda>kvs. ''pull_request'' \<notin> fst ` set kvs)
        [[(''number'', JInt 1)], [(''number'', JInt 2), (''pull_request'', JObj [])]])) = 1"
proof -
  let ?objs = "[[(''number'', JInt 1)], [(''number'', JInt 2), (''pull_request'', JObj [])]]"
  have a: "enabled Map.empty ''issues''"
    by (simp add: enabled_def)
  have b: "fetch_json_with_client demo_env (issues_url ''Dijkstra-Edu/r1'' ''alice'') =
       Inr (JList (map JObj ?objs))"
    by code_simp
  have c: "process_repo demo_env ''Dijkstra-Edu/r1'' ''alice'' Map.empty =
       Inr \<lparr>commits = 3, issues = 1, pulls = 2, additions = PInt 10, deletions = PInt 2\<rparr>"
    by code_simp
  show ?thesis
    using issues_count_excludes_pull_requests [OF a b c] a b c by simp
qed




text \<open>
  Claim C7. An exception raised by the fetch of the repository list is raised by
  \<^verbatim>\<open>count_user_contributions\<close> itself, and no report is built; in particular a listing
  response whose status is not 200 makes the call raise the \<open>HTTPException\<close> with that
  status and body.
\<close>

theorem count_user_contributions_propagates_listing_error:
  "(get_org_repos e org = Inl x \<longrightarrow> count_user_contributions e user org params = Inl x)
   \<and> (http_get e (org_repos_url org) = Inr r \<and> status_code r \<noteq> 200 \<longrightarrow>
        count_user_contributions e user org params =
          Inl (HTTPException (status_code r) (''GitHub API error: '' @ body_text r)))"
  by (simp add: count_user_contributions_def get_org_repos_def fetch_json_def)

theorem count_user_contributions_propagates_listing_error_witness:
  "get_org_repos demo_env ''nobody'' =
     Inl (HTTPException 404 (''GitHub API error: '' @ body_text not_found))
   \<and> http_get demo_env (org_repos_url ''nobody'') = Inr not_found
   \<and> status_code not_found \<noteq> 200
   \<and> count_user_contributions demo_env ''alice'' ''nobody'' Map.empty =
       Inl (HTTPException 404 (''GitHub API error: '' @ body_text not_found))"
proof -
  have a: "http_get demo_env (org_repos_url ''nobody'') = Inr not_found"
    by code_simp
  have b: "status_code not_found = 404"
    by (simp add: not_found_def)
  have c: "get_org_repos demo_env ''nobody'' =
     Inl (HTTPException 404 (''GitHub API error: '' @ body_text not_found))"
    by code_simp
  show ?thesis
    using count_user_contributions_propagates_listing_error
      [of demo_env "''nobody''" "HTTPException 404 (''GitHub API error: '' @ body_text not_found)"
         "''alice''" Map.empty not_found] a b c
    by simp
qed

text \<open>
  Claim C8. With \<^verbatim>\<open>commits\<close> set to false, \<open>total_lines_added\<close> and \<open>total_lines_deleted\<close>
  of every returned report are 0: the statistics of the commits are fetched inside the
  commits branch only.
\<close>

theorem commits_disabled_lines_zero:
  assumes "count_user_contributions e user org params = Inr rep"
    and "params ''commits'' = Some False"
  shows "total_lines_added rep = 0 \<and> total_lines_deleted rep = 0"
proof -
  from assms(1) obtain names t where
    t: "add_results e zero_totals (gather_repos e user params names) = Inr t" and
    rep: "new_GitHubContributions user org t = Inr rep"
    using count_user_contributions_Inr by blast
  from assms(2) have off: "\<not> enabled params ''commits''"
    by (simp add: enabled_def)
  have "additions r = PInt 0 \<and> deletions r = PInt 0"
    if "r \<in> set (successes (gather_repos e user params names))" for r
    using that off process_repo_commits_off successes_gather_repos by blast
  then have "sum_lines_added t = PInt 0 \<and> sum_lines_deleted t = PInt 0"
    by (intro add_results_zero_lines [OF _ _ _ t]) (simp_all add: zero_totals_def)
  with new_GitHubContributions_Inr [OF rep] show ?thesis
    by simp
qed

theorem commits_disabled_lines_zero_witness:
  "count_user_contributions demo_env ''alice'' ''Dijkstra-Edu''
        [''commits'' \<mapsto> False, ''issues'' \<mapsto> True] =
     Inr \<lparr>username = ''alice'', organization = ''Dijkstra-Edu'', total_commits = 0,
          total_issues = 1, total_pull_requests = 3, total_lines_added = 0,
          total_lines_deleted = 0\<rparr>
   \<and> [''commits'' \<mapsto> False, ''issues'' \<mapsto> True] ''commits'' = Some False"
proof -
  have a: "count_user_contributions demo_env ''alice'' ''Dijkstra-Edu''
        [''commits'' \<mapsto> False, ''issues'' \<mapsto> True] =
     Inr \<lparr>username = ''alice'', organization = ''Dijkstra-Edu'', total_commits = 0,
          total_issues = 1, total_pull_requests = 3, total_lines_added = 0,
          total_lines_deleted = 0\<rparr>"
    by code_simp
  have b: "[''commits'' \<mapsto> False, ''issues'' \<mapsto> True] ''commits'' = Some False"
    by simp
  show ?thesis
    using commits_disabled_lines_zero [OF a b] a b by simp
qed

text \<open>
  Claim C9. A key that is absent from the feature selection counts as enabled. The
  aggregation of a repository and the whole report are the same as with the key present
  and true, and the branch of an absent category key is run: an exception of its fetch is
  the exception of the aggregation, and in a returned result \<open>commits\<close> is the length of
  the fetched commit list, \<open>issues\<close> the number of fetched objects without a
  \<^verbatim>\<open>pull_request\<close> key, and \<open>pulls\<close> the length of the fetched pull request list.
\<close>

theorem absent_key_is_enabled:
  assumes "params k = None"
  shows "enabled params k
       \<and> process_repo e full_name user params = process_repo e full_name user (params(k \<mapsto> True))
       \<and> count_user_contributions e user org params =
           count_user_contributions e user org (params(k \<mapsto> True))
       \<and> (k = ''commits'' \<and> fetch_json_with_client e (commits_url full_name user) = Inl x \<longrightarrow>
            process_repo e full_name user params = Inl x)
       \<and> (k = ''commits'' \<and> fetch_json_with_client e (commits_url full_name user) = Inr cs \<and>
          process_repo e full_name user params = Inr r \<longrightarrow> py_len cs = Inr (commits r))
       \<and> (k = ''issues'' \<and> commits_branch e full_name user params empty_result = Inr r1 \<and>
          fetch_json_with_client e (issues_url full_name user) = Inl x \<longrightarrow>
            process_repo e full_name user params = Inl x)
       \<and> (k = ''issues'' \<and>
          fetch_json_with_client e (issues_url full_name user) = Inr (JList (map JObj objs)) \<and>
          process_repo e full_name user params = Inr r \<longrightarrow>
            issues r = int (length (filter (\<lambda>kvs. ''pull_request'' \<notin> fst ` set kvs) objs)))
       \<and> (k = ''pulls'' \<and> commits_branch e full_name user params empty_result = Inr r1 \<and>
          issues_branch e full_name user params r1 = Inr r2 \<and>
          fetch_json_with_client e (pulls_url full_name user) = Inl x \<longrightarrow>
            process_repo e full_name user params = Inl x)
       \<and> (k = ''pulls'' \<and> fetch_json_with_client e (pulls_url full_name user) = Inr ps \<and>
          process_repo e full_name user params = Inr r \<longrightarrow> py_len ps = Inr (pulls r))"
proof -
  from assms have on: "enabled params k"
    by (simp add: enabled_def)
  have same: "process_repo e full_name user params =
      process_repo e full_name user (params(k \<mapsto> True))"
    using assms by (simp add: process_repo_absent_key)
  have whole: "count_user_contributions e user org params =
      count_user_contributions e user org (params(k \<mapsto> True))"
    using assms
    by (simp add: count_user_contributions_def gather_repos_def process_repo_absent_key
        cong: sum.case_cong)
  have c1: "process_repo e full_name user params = Inl x"
    if "k = ''commits'' \<and> fetch_json_with_client e (commits_url full_name user) = Inl x"
    using that on process_repo_fetch_errors(1) by blast
  have c2: "py_len cs = Inr (commits r)"
    if "k = ''commits'' \<and> fetch_json_with_client e (commits_url full_name user) = Inr cs \<and>
        process_repo e full_name user params = Inr r"
    using that on process_repo_commits_count by blast
  have i1: "process_repo e full_name user params = Inl x"
    if "k = ''issues'' \<and> commits_branch e full_name user params empty_result = Inr r1 \<and>
        fetch_json_with_client e (issues_url full_name user) = Inl x"
    using that on process_repo_fetch_errors(2) by blast
  have i2: "issues r = int (length (filter (\<lambda>kvs. ''pull_request'' \<notin> fst ` set kvs) objs))"
    if "k = ''issues'' \<and>
        fetch_json_with_client e (issues_url full_name user) = Inr (JList (map JObj objs)) \<and>
        process_repo e full_name user params = Inr r"
    using that on process_repo_issues_count by blast
  have p1: "process_repo e full_name user params = Inl x"
    if "k = ''pulls'' \<and> commits_branch e full_name user params empty_result = Inr r1 \<and>
        issues_branch e full_name user params r1 = Inr r2 \<and>
        fetch_json_with_client e (pulls_url full_name user) = Inl x"
    using that on process_repo_fetch_errors(3) by blast
  have p2: "py_len ps = Inr (pulls r)"
    if "k = ''pulls'' \<and> fetch_json_with_client e (pulls_url full_name user) = Inr ps \<and>
        process_repo e full_name user params = Inr r"
    using that on process_repo_pulls_count by blast
  from on same whole c1 c2 i1 i2 p1 p2 show ?thesis
    by (intro conjI impI)
qed

theorem absent_key_is_enabled_witness:
  "[''issues'' \<mapsto> True] ''commits'' = None
   \<and> enabled [''issues'' \<mapsto> True] ''commits''
   \<and> fetch_json_with_client demo_env (commits_url ''Dijkstra-Edu/r1'' ''alice'') =
       Inr (JList [JObj [(''sha'', JStr ''a1'')], JObj [(''sha'', JStr ''a2'')],
                   JObj [(''sha'', JStr ''a3'')]])
   \<and> process_repo demo_env ''Dijkstra-Edu/r1'' ''alice'' [''issues'' \<mapsto> True] =
       Inr \<lparr>commits = 3, issues = 1, pulls = 2, additions = PInt 10, deletions = PInt 2\<rparr>
   \<and> process_repo demo_env ''Dijkstra-Edu/r1'' ''alice''
        [''issues'' \<mapsto> True, ''commits'' \<mapsto> True] =
       Inr \<lparr>commits = 3, issues = 1, pulls = 2, additions = PInt 10, deletions = PInt 2\<rparr>
   \<and> py_len (JList [JObj [(''sha'', JStr ''a1'')], JObj [(''sha'', JStr ''a2'')],
                    JObj [(''sha'', JStr ''a3'')]]) = Inr 3
   \<and> count_user_contributions demo_env ''alice'' ''Dijkstra-Edu''
        [''issues'' \<mapsto> True, ''commits'' \<mapsto> True] =
       Inr \<lparr>username = ''alice'', organization = ''Dijkstra-Edu'', total_commits = 4,
            total_issues = 1, total_pull_requests = 3, total_lines_added = 11,
            total_lines_deleted = 3\<rparr>
   \<and> fetch_json_with_client demo_env (commits_url ''Dijkstra-Edu/r2'' ''alice'') =
       Inl (HTTPException 500 ''GitHub API error: boom'')
   \<and> process_repo demo_env ''Dijkstra-Edu/r2'' ''alice'' [''issues'' \<mapsto> True] =
       Inl (HTTPException 500 ''GitHub API error: boom'')"
proof -
  let ?cs = "JList [JObj [(''sha'', JStr ''a1'')], JObj [(''sha'', JStr ''a2'')],
                    JObj [(''sha'', JStr ''a3'')]]"
  let ?r1 = "\<lparr>commits = 3, issues = 1, pulls = 2, additions = PInt 10, deletions = PInt 2\<rparr>"
  have a: "[''issues'' \<mapsto> True] ''commits'' = None"
    by simp
  have f: "fetch_json_with_client demo_env (commits_url ''Dijkstra-Edu/r1'' ''alice'') = Inr ?cs"
    by code_simp
  have p: "process_repo demo_env ''Dijkstra-Edu/r1'' ''alice'' [''issues'' \<mapsto> True] = Inr ?r1"
    by code_simp
  have c: "count_user_contributions demo_env ''alice'' ''Dijkstra-Edu'' [''issues'' \<mapsto> True] =
       Inr \<lparr>username = ''alice'', organization = ''Dijkstra-Edu'', total_commits = 4,
            total_issues = 1, total_pull_requests = 3, total_lines_added = 11,
            total_lines_deleted = 3\<rparr>"
    by code_simp
  have g: "fetch_json_with_client demo_env (commits_url ''Dijkstra-Edu/r2'' ''alice'') =
       Inl (HTTPException 500 ''GitHub API error: boom'')"
    by code_simp
  note t1 = absent_key_is_enabled [where params = "[''issues'' \<mapsto> True]"
      and k = "''commits''" and e = demo_env and full_name = "''Dijkstra-Edu/r1''"
      and user = "''alice''" and org = "''Dijkstra-Edu''" and cs = ?cs and r = ?r1]
  note t2 = absent_key_is_enabled [where params = "[''issues'' \<mapsto> True]"
      and k = "''commits''" and e = demo_env and full_name = "''Dijkstra-Edu/r2''"
      and user = "''alice''" and org = "''Dijkstra-Edu''"
      and x = "HTTPException 500 ''GitHub API error: boom''", OF a, THEN conjunct2,
      THEN conjunct2, THEN conjunct2, THEN conjunct1]
  show ?thesis
    using t1 t2 a f p c g by simp
qed

text \<open>
  Claim C10, as amended. \<^verbatim>\<open>get_commit_stats\<close> never raises, whatever the request answers
  and whatever the status code. It returns the empty dictionary when the request raises,
  when the body does not decode, when the decoded body is not an object, and when the
  object has no \<^verbatim>\<open>stats\<close> field; in that last case the commit adds nothing to the
  additions and deletions. When the object has a \<^verbatim>\<open>stats\<close> field, the value of that
  field is returned as it is, so the result is a dictionary only when the field holds one:
  the counterexample is a body whose \<^verbatim>\<open>stats\<close> is the number 5.
\<close>

theorem get_commit_stats_never_raises:
  "(\<exists>v. get_commit_stats e url = Inr v)
   \<and> (http_get e url = Inl x \<longrightarrow> get_commit_stats e url = Inr (JObj []))
   \<and> (http_get e url = Inr resp \<and> json_body resp = None \<longrightarrow>
        get_commit_stats e url = Inr (JObj []))
   \<and> (http_get e url = Inr resp \<and> json_body resp = Some b \<and> (\<forall>kvs. b \<noteq> JObj kvs) \<longrightarrow>
        get_commit_stats e url = Inr (JObj []))
   \<and> (http_get e url = Inr resp \<and> json_body resp = Some (JObj kvs) \<and>
      map_of kvs ''stats'' = None \<longrightarrow>
        get_commit_stats e url = Inr (JObj []) \<and>
        add_stats e r (get_commit_stats e url # rest) = add_stats e r rest)
   \<and> (http_get e url = Inr resp \<and> json_body resp = Some (JObj kvs) \<and>
      map_of kvs ''stats'' = Some s \<longrightarrow>
        get_commit_stats e url = Inr s)"
proof -
  have "\<exists>v. get_commit_stats e url = Inr v"
    by (simp add: get_commit_stats_def split: sum.split)
  moreover have "get_commit_stats e url = Inr (JObj [])"
    if "http_get e url = Inr resp \<and> json_body resp = Some b \<and> (\<forall>kvs. b \<noteq> JObj kvs)"
    using that
    by (cases b) (simp_all add: get_commit_stats_def get_commit_stats_try_def response_json_def)
  moreover have "get_commit_stats e url = Inr (JObj []) \<and>
      add_stats e r (get_commit_stats e url # rest) = add_stats e r rest"
    if "http_get e url = Inr resp \<and> json_body resp = Some (JObj kvs) \<and>
        map_of kvs ''stats'' = None"
  proof -
    from that have "get_commit_stats e url = Inr (JObj [])"
      by (simp add: get_commit_stats_answered)
    then show ?thesis
      by (simp only: add_stats_skip_empty)
  qed
  ultimately show ?thesis
    by (simp add: get_commit_stats_def get_commit_stats_try_def response_json_def)
qed

theorem get_commit_stats_never_raises_witness:
  "http_get demo_env (commit_detail_url ''Dijkstra-Edu/r1'' ''a3'') = Inl (RequestError ''timed out'')
   \<and> get_commit_stats demo_env (commit_detail_url ''Dijkstra-Edu/r1'' ''a3'') = Inr (JObj [])
   \<and> http_get demo_env (commit_detail_url ''Dijkstra-Edu/r1'' ''gone'') = Inr not_found
   \<and> status_code not_found = 404
   \<and> json_body not_found = Some (JObj [(''message'', JStr ''Not Found'')])
   \<and> map_of [(''message'', JStr ''Not Found'')] ''stats'' = None
   \<and> get_commit_stats demo_env (commit_detail_url ''Dijkstra-Edu/r1'' ''gone'') = Inr (JObj [])
   \<and> add_stats demo_env empty_result
        [get_commit_stats demo_env (commit_detail_url ''Dijkstra-Edu/r1'' ''gone'')] =
       Inr empty_result
   \<and> http_get demo_env (commit_detail_url ''Dijkstra-Edu/r4'' ''e1'') = Inr error_page_with_stats
   \<and> json_body error_page_with_stats =
       Some (JObj [(''stats'', JObj [(''additions'', JInt 7), (''deletions'', JInt 1)])])
   \<and> get_commit_stats demo_env (commit_detail_url ''Dijkstra-Edu/r4'' ''e1'') =
       Inr (JObj [(''additions'', JInt 7), (''deletions'', JInt 1)])"
proof -
  let ?st = "JObj [(''additions'', JInt 7), (''deletions'', JInt 1)]"
  have a: "http_get demo_env (commit_detail_url ''Dijkstra-Edu/r1'' ''a3'') =
      Inl (RequestError ''timed out'')"
    by code_simp
  have b: "http_get demo_env (commit_detail_url ''Dijkstra-Edu/r1'' ''gone'') = Inr not_found"
    by code_simp
  have c: "json_body not_found = Some (JObj [(''message'', JStr ''Not Found'')])"
    by (simp add: not_found_def)
  have c': "status_code not_found = 404"
    by (simp add: not_found_def)
  have n: "map_of [(''message'', JStr ''Not Found'')] ''stats'' = None"
    by simp
  have k: "http_get demo_env (commit_detail_url ''Dijkstra-Edu/r4'' ''e1'') =
      Inr error_page_with_stats"
    by code_simp
  have l: "json_body error_page_with_stats = Some (JObj [(''stats'', ?st)])"
    by (simp add: error_page_with_stats_def)
  note t1 = get_commit_stats_never_raises
    [where e = demo_env and url = "commit_detail_url ''Dijkstra-Edu/r1'' ''a3''"
       and x = "RequestError ''timed out''", THEN conjunct2, THEN conjunct1, rule_format]
  note t2 = get_commit_stats_never_raises
    [where e = demo_env and url = "commit_detail_url ''Dijkstra-Edu/r1'' ''gone''"
       and resp = not_found and kvs = "[(''message'', JStr ''Not Found'')]"
       and r = empty_result and rest = "[]", THEN conjunct2, THEN conjunct2, THEN conjunct2,
       THEN conjunct2, THEN conjunct1, rule_format]
  note t3 = get_commit_stats_never_raises
    [where e = demo_env and url = "commit_detail_url ''Dijkstra-Edu/r4'' ''e1''"
       and resp = error_page_with_stats and kvs = "[(''stats'', ?st)]" and s = ?st,
       THEN conjunct2, THEN conjunct2, THEN conjunct2, THEN conjunct2, THEN conjunct2,
       rule_format]
  have w1: "get_commit_stats demo_env (commit_detail_url ''Dijkstra-Edu/r1'' ''a3'') =
      Inr (JObj [])"
    by (rule t1) (rule a)
  have w2: "get_commit_stats demo_env (commit_detail_url ''Dijkstra-Edu/r1'' ''gone'') =
      Inr (JObj []) \<and>
     add_stats demo_env empty_result
        [get_commit_stats demo_env (commit_detail_url ''Dijkstra-Edu/r1'' ''gone'')] =
       add_stats demo_env empty_result []"
    by (rule t2) (intro conjI b c n)
  have w3: "add_stats demo_env empty_result
        [get_commit_stats demo_env (commit_detail_url ''Dijkstra-Edu/r1'' ''gone'')] =
       Inr empty_result"
    by (simp only: w2 [THEN conjunct2] add_stats.simps(1))
  have w4: "get_commit_stats demo_env (commit_detail_url ''Dijkstra-Edu/r4'' ''e1'') = Inr ?st"
    by (rule t3) (simp add: k l)
  show ?thesis
    by (intro conjI a w1 b c' c n w2 [THEN conjunct1] w3 k l w4)
qed

theorem get_commit_stats_not_a_dict_counterexample:
  "http_get demo_env (commit_detail_url ''Dijkstra-Edu/r1'' ''odd'') = Inr odd_stats_page
   \<and> status_code odd_stats_page = 200
   \<and> json_body odd_stats_page = Some (JObj [(''stats'', JInt 5)])
   \<and> get_commit_stats demo_env (commit_detail_url ''Dijkstra-Edu/r1'' ''odd'') = Inr (JInt 5)"
  by code_simp

end
